theory Spec2Isabelle
  imports Main "HOL-Library.Sublist"
begin

section \<open>Python values and string methods used by chng.py\<close>

text \<open>
  A Python \<open>str\<close> is modelled as a \<open>string\<close> whose characters are the code points
  below 256. The functions of this section are the library operations that
  \<^verbatim>\<open>chng.py\<close> calls on strings: \<^verbatim>\<open>strip()\<close>, \<^verbatim>\<open>rstrip(chars)\<close>, \<^verbatim>\<open>sub in s\<close>,
  \<^verbatim>\<open>s.split(sep[, maxsplit])\<close>, \<^verbatim>\<open>sep.join(xs)\<close> and \<^verbatim>\<open>str(x)\<close>.
\<close>

datatype pyexn =
    AttributeError string
  | IndexError string
  | ValueError string
  | EOFError string
  | APIError string

fun exn_msg :: "pyexn \<Rightarrow> string" where
  "exn_msg (AttributeError m) = m"
| "exn_msg (IndexError m) = m"
| "exn_msg (ValueError m) = m"
| "exn_msg (EOFError m) = m"
| "exn_msg (APIError m) = m"

definition bind_exn :: "pyexn + 'a \<Rightarrow> ('a \<Rightarrow> pyexn + 'b) \<Rightarrow> pyexn + 'b" where
  "bind_exn m f = (case m of Inl e \<Rightarrow> Inl e | Inr x \<Rightarrow> f x)"

text \<open>\<^verbatim>\<open>str.isspace\<close> on the code points below 256.\<close>

definition is_space :: "char \<Rightarrow> bool" where
  "is_space c = (of_char c \<in> {9, 10, 11, 12, 13, 28, 29, 30, 31, 32, 133, 160 :: nat})"

definition py_strip :: "string \<Rightarrow> string" where
  "py_strip s = rev (dropWhile is_space (rev (dropWhile is_space s)))"

definition py_rstrip :: "string \<Rightarrow> string \<Rightarrow> string" where
  "py_rstrip chars s = rev (dropWhile (\<lambda>c. c \<in> set chars) (rev s))"

fun py_in :: "string \<Rightarrow> string \<Rightarrow> bool" where
  "py_in sub [] = (sub = [])"
| "py_in sub (c # cs) = (prefix sub (c # cs) \<or> py_in sub cs)"

text \<open>
  \<open>split_from sep n s\<close> cuts \<open>s\<close> at the occurrences of the non-empty separator
  \<open>sep\<close>, found from left to right without overlap; \<open>n\<close> is the number of cuts still
  allowed (\<open>None\<close>: no limit).
\<close>

function split_from :: "string \<Rightarrow> nat option \<Rightarrow> string \<Rightarrow> string list" where
  "split_from sep n [] = [[]]"
| "split_from sep n (c # cs) =
     (if sep \<noteq> [] \<and> n \<noteq> Some 0 \<and> prefix sep (c # cs)
      then [] # split_from sep (map_option (\<lambda>k. k - 1) n) (drop (length sep) (c # cs))
      else (case split_from sep n cs of
              [] \<Rightarrow> [[c]]
            | p # ps \<Rightarrow> (c # p) # ps))"
  by pat_completeness auto
termination
  by (relation "measure (\<lambda>(sep, n, s). length s)") auto

fun py_split :: "string \<Rightarrow> nat option \<Rightarrow> string \<Rightarrow> pyexn + string list" where
  "py_split [] n s = Inl (ValueError ''empty separator'')"
| "py_split (d # ds) n s = Inr (split_from (d # ds) n s)"

fun py_join :: "string \<Rightarrow> string list \<Rightarrow> string" where
  "py_join sep [] = []"
| "py_join sep [x] = x"
| "py_join sep (x # y # ys) = x @ sep @ py_join sep (y # ys)"

text \<open>\<^verbatim>\<open>xs[0]\<close> and \<^verbatim>\<open>xs[1:]\<close> on a list.\<close>

fun py_index0 :: "'a list \<Rightarrow> pyexn + 'a" where
  "py_index0 [] = Inl (IndexError ''list index out of range'')"
| "py_index0 (x # xs) = Inr x"

definition py_slice1 :: "'a list \<Rightarrow> 'a list" where
  "py_slice1 xs = drop 1 xs"

subsection \<open>Values read from the configuration file\<close>

text \<open>
  What \<^verbatim>\<open>json.load\<close> can return, floating-point numbers left out. A \<open>JObj\<close> is a
  Python \<open>dict\<close> with its items in order.
\<close>

datatype json =
    JNull
  | JBool bool
  | JInt int
  | JStr string
  | JArr "json list"
  | JObj "(string \<times> json) list"

text \<open>Truth value of a Python object, as \<^verbatim>\<open>if x\<close> and \<^verbatim>\<open>not x\<close> test it.\<close>

fun truthy :: "json \<Rightarrow> bool" where
  "truthy JNull = False"
| "truthy (JBool b) = b"
| "truthy (JInt i) = (i \<noteq> 0)"
| "truthy (JStr s) = (s \<noteq> [])"
| "truthy (JArr xs) = (xs \<noteq> [])"
| "truthy (JObj kvs) = (kvs \<noteq> [])"

fun type_name :: "json \<Rightarrow> string" where
  "type_name JNull = ''NoneType''"
| "type_name (JBool b) = ''bool''"
| "type_name (JInt i) = ''int''"
| "type_name (JStr s) = ''str''"
| "type_name (JArr xs) = ''list''"
| "type_name (JObj kvs) = ''dict''"

text \<open>
  \<^verbatim>\<open>str(x)\<close>, which an f-string applies to a value it formats, and \<^verbatim>\<open>repr(x)\<close>,
  which \<^verbatim>\<open>str\<close> applies to the members of a list or dict.
\<close>

function dec_nat :: "nat \<Rightarrow> string" where
  "dec_nat n =
     (if n < 10 then [char_of (48 + n)]
      else dec_nat (n div 10) @ [char_of (48 + n mod 10)])"
  by pat_completeness auto
termination
  by (relation "measure id") auto

definition dec_int :: "int \<Rightarrow> string" where
  "dec_int i = (if i < 0 then ''-'' @ dec_nat (nat (- i)) else dec_nat (nat i))"

definition hex_digit :: "nat \<Rightarrow> char" where
  "hex_digit d = (if d < 10 then char_of (48 + d) else char_of (87 + d))"

definition repr_char :: "char \<Rightarrow> char \<Rightarrow> string" where
  "repr_char q c =
     (let n = (of_char c :: nat) in
      if c = CHR 0x5C then [CHR 0x5C, CHR 0x5C]
      else if c = q then [CHR 0x5C, q]
      else if n = 9 then [CHR 0x5C, CHR ''t'']
      else if n = 10 then [CHR 0x5C, CHR ''n'']
      else if n = 13 then [CHR 0x5C, CHR ''r'']
      else if n < 32 \<or> (127 \<le> n \<and> n \<le> 160) \<or> n = 173
        then [CHR 0x5C, CHR ''x'', hex_digit (n div 16), hex_digit (n mod 16)]
      else [c])"

definition repr_str :: "string \<Rightarrow> string" where
  "repr_str s =
     (let q = (if CHR 0x27 \<in> set s \<and> CHR 0x22 \<notin> set s then CHR 0x22 else CHR 0x27)
      in q # concat (map (repr_char q) s) @ [q])"

fun py_repr :: "json \<Rightarrow> string" where
  "py_repr JNull = ''None''"
| "py_repr (JBool b) = (if b then ''True'' else ''False'')"
| "py_repr (JInt i) = dec_int i"
| "py_repr (JStr s) = repr_str s"
| "py_repr (JArr xs) = ''['' @ py_join '', '' (map py_repr xs) @ '']''"
| "py_repr (JObj kvs) =
     ''{'' @ py_join '', '' (map (\<lambda>kv. repr_str (fst kv) @ '': '' @ py_repr (snd kv)) kvs) @ ''}''"

fun py_str :: "json \<Rightarrow> string" where
  "py_str (JStr s) = s"
| "py_str v = py_repr v"

definition no_attribute :: "json \<Rightarrow> string \<Rightarrow> pyexn" where
  "no_attribute v a =
     AttributeError ([CHR 0x27] @ type_name v @ [CHR 0x27] @ '' object has no attribute ''
                       @ [CHR 0x27] @ a @ [CHR 0x27])"

text \<open>\<^verbatim>\<open>d.get(key, default)\<close>: only a \<open>dict\<close> has the method.\<close>

fun dict_get :: "json \<Rightarrow> string \<Rightarrow> json \<Rightarrow> pyexn + json" where
  "dict_get (JObj kvs) k d = Inr (case map_of kvs k of None \<Rightarrow> d | Some v \<Rightarrow> v)"
| "dict_get v k d = Inl (no_attribute v ''get'')"

text \<open>\<^verbatim>\<open>v.rstrip(chars)\<close> and \<^verbatim>\<open>v.strip()\<close>: only a \<open>str\<close> has the methods.\<close>

fun method_rstrip :: "json \<Rightarrow> string \<Rightarrow> pyexn + string" where
  "method_rstrip (JStr s) chars = Inr (py_rstrip chars s)"
| "method_rstrip v chars = Inl (no_attribute v ''rstrip'')"

subsection \<open>Paths\<close>

text \<open>
  The operations of \<^verbatim>\<open>pathlib\<close> that the program uses, on POSIX paths. A path is its
  root (\<open>''''\<close>, \<open>''/''\<close> or \<open>''//''\<close>) and its components; empty components and
  \<open>''.''\<close> are dropped when a string is parsed. \<open>path_stem\<close> is the final component
  without its last suffix, as Python 3.4 to 3.13 compute it.
\<close>

type_synonym path = "string \<times> string list"

definition path_parse :: "string \<Rightarrow> path" where
  "path_parse s =
     (if prefix ''//'' s \<and> \<not> prefix ''///'' s then ''//''
      else if prefix ''/'' s then ''/''
      else [],
      filter (\<lambda>p. p \<noteq> [] \<and> p \<noteq> ''.'') (split_from ''/'' None s))"

definition path_str :: "path \<Rightarrow> string" where
  "path_str p = (if fst p = [] \<and> snd p = [] then ''.'' else fst p @ py_join ''/'' (snd p))"

definition path_parent :: "path \<Rightarrow> path" where
  "path_parent p = (fst p, butlast (snd p))"

definition path_name :: "path \<Rightarrow> string" where
  "path_name p = (if snd p = [] then [] else last (snd p))"

definition path_stem :: "path \<Rightarrow> string" where
  "path_stem p =
     (let name = path_name p;
          after = takeWhile (\<lambda>c. c \<noteq> CHR ''.'') (rev name);
          i = length name - length after - 1
      in if CHR ''.'' \<in> set name \<and> 0 < i \<and> after \<noteq> [] then take i name else name)"

definition path_join :: "path \<Rightarrow> string \<Rightarrow> path" where
  "path_join p child =
     (let c = path_parse child in if fst c \<noteq> [] then c else (fst p, snd p @ snd c))"

section \<open>The world the program runs in\<close>

text \<open>
  One constructor for each message the program prints on the console. Printing is taken
  to succeed: how the \<^verbatim>\<open>rich\<close> library renders a text, and what it does with markup
  inside it, is not modelled.
\<close>

datatype event =
    ErrorSavingConfig string
  | Cleared
  | SetupBanner
  | Asked string
  | SetupWarning "string list"
  | ConfigSaved
  | UsingModel string
  | TestingConnection
  | ConnectionOk
  | ConnectionFailed
  | NoUrlConfigured
  | ErrorMsg string
  | FileNotFound string
  | ErrorReadingFile string
  | FileEmpty
  | Processing string
  | GeneratedChangelog string
  | SavedTo string
  | ErrorSavingChangelog string
  | Usage
  | NoConfigRunningSetup
  | NowYouCanRun

text \<open>
  A chat-completion request as \<^verbatim>\<open>client.chat.completions.create\<close> sends it, and what
  comes back: an exception with its message, or the \<^verbatim>\<open>message.content\<close> of each choice
  (\<open>None\<close> where the content is null).
\<close>

record client =
  cl_base_url :: string
  cl_api_key :: json

record request =
  rq_client :: client
  rq_model :: json
  rq_messages :: "(string \<times> string) list"
  rq_max_tokens :: nat
  rq_temperature :: "string option"

datatype response = Failed string | Completion "string option list"

text \<open>
  Opening a file for writing can fail (nothing is written), and so can the write after
  the file was opened and truncated (a prefix of the text is left in the file).
\<close>

datatype write_fault = OpenFails string | WriteFails nat string

record world =
  fs_files :: "string \<Rightarrow> string option"
  fs_read_fault :: "string \<Rightarrow> string option"
  fs_write_fault :: "string \<Rightarrow> write_fault option"
  fs_chmod_fault :: "string \<Rightarrow> string option"
  fs_modes :: "string \<Rightarrow> nat option"
  console :: "event list"
  api_calls :: "request list"
  stdin :: "string list"

text \<open>
  What the run cannot change: the home directory, the \<^verbatim>\<open>json\<close> module
  (\<open>json_loads\<close> gives \<open>None\<close> where \<^verbatim>\<open>json.load\<close> raises, \<open>json_dumps\<close> is the text
  \<^verbatim>\<open>json.dump(obj, f, indent=2)\<close> writes) and the completion service, which answers a
  request knowing the requests made before it.
\<close>

record env =
  home :: string
  json_loads :: "string \<Rightarrow> json option"
  json_dumps :: "json \<Rightarrow> string"
  chat_create :: "request list \<Rightarrow> request \<Rightarrow> response"

definition print :: "event \<Rightarrow> world \<Rightarrow> world" where
  "print e w = w\<lparr>console := console w @ [e]\<rparr>"

datatype read_error = NotFound | OtherReadError string

text \<open>\<^verbatim>\<open>open(path, 'r')\<close> followed by \<^verbatim>\<open>f.read()\<close>: the decoded text of the file.\<close>

definition read_text :: "world \<Rightarrow> string \<Rightarrow> read_error + string" where
  "read_text w p =
     (case fs_read_fault w p of
        Some m \<Rightarrow> Inl (OtherReadError m)
      | None \<Rightarrow> (case fs_files w p of None \<Rightarrow> Inl NotFound | Some text \<Rightarrow> Inr text))"

text \<open>\<^verbatim>\<open>open(path, 'w')\<close> followed by \<^verbatim>\<open>f.write(text)\<close>; the result is the exception's message.\<close>

definition write_text :: "string \<Rightarrow> string \<Rightarrow> world \<Rightarrow> string option \<times> world" where
  "write_text p text w =
     (case fs_write_fault w p of
        None \<Rightarrow> (None, w\<lparr>fs_files := (fs_files w)(p \<mapsto> text)\<rparr>)
      | Some (OpenFails m) \<Rightarrow> (Some m, w)
      | Some (WriteFails n m) \<Rightarrow> (Some m, w\<lparr>fs_files := (fs_files w)(p \<mapsto> take n text)\<rparr>))"

definition chmod :: "string \<Rightarrow> nat \<Rightarrow> world \<Rightarrow> string option \<times> world" where
  "chmod p mode w =
     (case fs_chmod_fault w p of
        None \<Rightarrow> (None, w\<lparr>fs_modes := (fs_modes w)(p \<mapsto> mode)\<rparr>)
      | Some m \<Rightarrow> (Some m, w))"

definition path_exists :: "world \<Rightarrow> string \<Rightarrow> bool" where
  "path_exists w p = (fs_files w p \<noteq> None)"

text \<open>
  \<^verbatim>\<open>Prompt.ask(prompt, default=d)\<close> of the \<^verbatim>\<open>rich\<close> library: an empty line gives the
  default, any other line is stripped; the end of the input raises.
\<close>

definition ask :: "string \<Rightarrow> json \<Rightarrow> world \<Rightarrow> (pyexn + json) \<times> world" where
  "ask prompt d w =
     (let w1 = print (Asked prompt) w in
      case stdin w1 of
        [] \<Rightarrow> (Inl (EOFError ''EOF when reading a line''), w1)
      | l # ls \<Rightarrow> (Inr (if l = [] then d else JStr (py_strip l)), w1\<lparr>stdin := ls\<rparr>))"

section \<open>ChngApp\<close>

definition config_file :: "env \<Rightarrow> string" where
  "config_file E = path_str (path_join (path_parse (home E)) ''.apikey'')"

definition load_config :: "env \<Rightarrow> world \<Rightarrow> json" where
  "load_config E w =
     (if path_exists w (config_file E) then
        (case read_text w (config_file E) of
           Inl e \<Rightarrow> JObj []
         | Inr text \<Rightarrow> (case json_loads E text of None \<Rightarrow> JObj [] | Some v \<Rightarrow> v))
      else JObj [])"

definition save_config :: "env \<Rightarrow> json \<Rightarrow> world \<Rightarrow> world" where
  "save_config E config w =
     (case write_text (config_file E) (json_dumps E config) w of
        (Some m, w1) \<Rightarrow> print (ErrorSavingConfig m) w1
      | (None, w1) \<Rightarrow>
          (case chmod (config_file E) (6 * 8 * 8) w1 of
             (Some m, w2) \<Rightarrow> print (ErrorSavingConfig m) w2
           | (None, w2) \<Rightarrow> w2))"

definition get_api_url :: "json \<Rightarrow> pyexn + string option" where
  "get_api_url config =
     bind_exn (dict_get config ''url'' (JStr [])) (\<lambda>u.
     bind_exn (method_rstrip u ''/'') (\<lambda>url.
     bind_exn (dict_get config ''port'' (JStr [])) (\<lambda>port.
       if url = [] then Inr None
       else if truthy port \<and> \<not> py_in ('':'' @ py_str port) url then
         (if py_in ''://'' url then
            bind_exn (py_split ''://'' (Some 1) url) (\<lambda>parts.
              case parts of
                [protocol, rest] \<Rightarrow>
                  bind_exn (py_split ''/'' None rest) (\<lambda>segs.
                  bind_exn (py_index0 segs) (\<lambda>seg.
                  bind_exn (py_split '':'' None seg) (\<lambda>hs.
                  bind_exn (py_index0 hs) (\<lambda>host.
                    let path = (if py_in ''/'' rest
                                then ''/'' @ py_join ''/'' (py_slice1 segs) else [])
                    in Inr (Some (protocol @ ''://'' @ host @ '':'' @ py_str port @ path))))))
              | _ \<Rightarrow> Inl (ValueError ''not enough values to unpack (expected 2, got 1)''))
          else Inr (Some url))
       else Inr (Some url))))"

definition get_client :: "json \<Rightarrow> world \<Rightarrow> (pyexn + client option) \<times> world" where
  "get_client config w =
     (case get_api_url config of
        Inl e \<Rightarrow> (Inl e, w)
      | Inr api_url \<Rightarrow>
          (case dict_get config ''key'' (JStr []) of
             Inl e \<Rightarrow> (Inl e, w)
           | Inr api_key \<Rightarrow>
               if api_url = None \<or> api_url = Some [] then (Inr None, print NoUrlConfigured w)
               else (Inr (Some \<lparr>cl_base_url = the api_url,
                                cl_api_key = (if \<not> truthy api_key then JStr ''dummy'' else api_key)\<rparr>),
                     w)))"

definition completions_create ::
  "env \<Rightarrow> client \<Rightarrow> json \<Rightarrow> (string \<times> string) list \<Rightarrow> nat \<Rightarrow> string option \<Rightarrow> world
     \<Rightarrow> response \<times> world" where
  "completions_create E c model messages max_tokens temperature w =
     (let rq = \<lparr>rq_client = c, rq_model = model, rq_messages = messages,
                rq_max_tokens = max_tokens, rq_temperature = temperature\<rparr>
      in (chat_create E (api_calls w) rq, w\<lparr>api_calls := api_calls w @ [rq]\<rparr>))"

definition test_connection :: "env \<Rightarrow> json \<Rightarrow> world \<Rightarrow> bool \<times> world" where
  "test_connection E config w =
     (case get_client config w of
        (Inl e, w1) \<Rightarrow> (False, w1)
      | (Inr None, w1) \<Rightarrow> (False, w1)
      | (Inr (Some c), w1) \<Rightarrow>
          (case dict_get config ''model'' (JStr ''gpt-3.5-turbo'') of
             Inl e \<Rightarrow> (False, w1)
           | Inr model \<Rightarrow>
               (case completions_create E c model [(''user'', ''test'')] 1 None w1 of
                  (Failed m, w2) \<Rightarrow> (False, w2)
                | (Completion choices, w2) \<Rightarrow> (True, w2))))"

definition changelog_prompt :: "string \<Rightarrow> string" where
  "changelog_prompt diff_content =
     ''You are an expert software developer writing a changelog entry.\<newline>\<newline>'' @
     ''Given this git diff, create a concise, well-formatted changelog entry in markdown format.\<newline>\<newline>'' @
     ''Guidelines:\<newline>'' @
     ''- Use clear, user-facing language\<newline>'' @
     ''- Group related changes together\<newline>'' @
     ''- Use bullet points for multiple changes\<newline>'' @
     ''- Follow conventional changelog format (Added, Changed, Fixed, Removed, etc.)\<newline>\<newline>'' @
     ''Diff:\<newline>'' @
     ''```\<newline>'' @
     diff_content @ ''\<newline>'' @
     ''```\<newline>\<newline>'' @
     ''Generate a changelog entry:''"

text \<open>
  The body of the \<^verbatim>\<open>try\<close> block of \<^verbatim>\<open>generate_changelog\<close>: the request, then
  \<^verbatim>\<open>response.choices[0].message.content.strip()\<close>.
\<close>

definition generate_changelog_try ::
  "env \<Rightarrow> json \<Rightarrow> client \<Rightarrow> string \<Rightarrow> world \<Rightarrow> (pyexn + string) \<times> world" where
  "generate_changelog_try E config c prompt w =
     (case dict_get config ''model'' (JStr ''gpt-3.5-turbo'') of
        Inl e \<Rightarrow> (Inl e, w)
      | Inr model \<Rightarrow>
          (case completions_create E c model [(''user'', prompt)] 1000 (Some ''0.3'') w of
             (Failed m, w1) \<Rightarrow> (Inl (APIError m), w1)
           | (Completion choices, w1) \<Rightarrow>
               (case py_index0 choices of
                  Inl e \<Rightarrow> (Inl e, w1)
                | Inr None \<Rightarrow> (Inl (no_attribute JNull ''strip''), w1)
                | Inr (Some content) \<Rightarrow> (Inr (py_strip content), w1))))"

definition generate_changelog ::
  "env \<Rightarrow> json \<Rightarrow> string \<Rightarrow> world \<Rightarrow> (pyexn + string option) \<times> world" where
  "generate_changelog E config diff_content w =
     (let prompt = changelog_prompt diff_content in
      case get_client config w of
        (Inl e, w1) \<Rightarrow> (Inl e, w1)
      | (Inr None, w1) \<Rightarrow> (Inr None, w1)
      | (Inr (Some c), w1) \<Rightarrow>
          (case generate_changelog_try E config c prompt w1 of
             (Inl e, w2) \<Rightarrow> (Inr None, print (ErrorMsg (exn_msg e)) w2)
           | (Inr text, w2) \<Rightarrow> (Inr (Some text), w2)))"

definition output_file :: "string \<Rightarrow> string" where
  "output_file filepath =
     path_str (path_join (path_parent (path_parse filepath))
                 (''changelog-'' @ path_stem (path_parse filepath) @ ''.md''))"

definition process_file :: "env \<Rightarrow> json \<Rightarrow> string \<Rightarrow> world \<Rightarrow> (pyexn + unit) \<times> world" where
  "process_file E config filepath w =
     (case read_text w filepath of
        Inl NotFound \<Rightarrow> (Inr (), print (FileNotFound filepath) w)
      | Inl (OtherReadError m) \<Rightarrow> (Inr (), print (ErrorReadingFile m) w)
      | Inr text \<Rightarrow>
          (let content = py_strip text in
           if content = [] then (Inr (), print FileEmpty w)
           else
             (case generate_changelog E config content (print (Processing filepath) w) of
                (Inl e, w1) \<Rightarrow> (Inl e, w1)
              | (Inr None, w1) \<Rightarrow> (Inr (), w1)
              | (Inr (Some changelog), w1) \<Rightarrow>
                  if changelog = [] then (Inr (), w1)
                  else
                    (case write_text (output_file filepath)
                            (''# Changelog\<newline>\<newline>'' @ changelog)
                            (print (GeneratedChangelog changelog) w1) of
                       (None, w2) \<Rightarrow> (Inr (), print (SavedTo (output_file filepath)) w2)
                     | (Some m, w2) \<Rightarrow> (Inr (), print (ErrorSavingChangelog m) w2)))))"

definition setup_app :: "env \<Rightarrow> json \<Rightarrow> world \<Rightarrow> (pyexn + json) \<times> world" where
  "setup_app E config w =
     (let w0 = print SetupBanner (print Cleared w) in
      case dict_get config ''url'' (JStr []) of Inl e \<Rightarrow> (Inl e, w0) | Inr current_url \<Rightarrow>
      case ask ''API URL (e.g., https://api.openai.com/v1 or http://localhost:11434/v1)''
             current_url w0 of (Inl e, w1) \<Rightarrow> (Inl e, w1) | (Inr url, w1) \<Rightarrow>
      case dict_get config ''port'' (JStr []) of Inl e \<Rightarrow> (Inl e, w1) | Inr current_port \<Rightarrow>
      case ask ''Port (leave empty to use port from URL)''
             (JStr (if truthy current_port then py_str current_port else []))
             w1 of (Inl e, w2) \<Rightarrow> (Inl e, w2) | (Inr port, w2) \<Rightarrow>
      case dict_get config ''key'' (JStr []) of Inl e \<Rightarrow> (Inl e, w2) | Inr current_key \<Rightarrow>
      case ask ''API Key'' current_key w2 of (Inl e, w3) \<Rightarrow> (Inl e, w3) | (Inr key, w3) \<Rightarrow>
      case dict_get config ''model'' (JStr ''gpt-3.5-turbo'') of
        Inl e \<Rightarrow> (Inl e, w3) | Inr current_model \<Rightarrow>
      case ask ''Model name (e.g., gpt-3.5-turbo, gpt-4, llama2, mistral)''
             current_model w3 of (Inl e, w4) \<Rightarrow> (Inl e, w4) | (Inr model, w4) \<Rightarrow>
      (let config' = JObj [(''url'', url), (''port'', port), (''key'', key), (''model'', model)];
           warnings = (if \<not> truthy url then [''URL is empty''] else []) @
                      (if \<not> truthy key then [''API key is empty''] else []) @
                      (if \<not> truthy model then [''Model is empty''] else []);
           w5 = (if warnings \<noteq> [] then print (SetupWarning warnings) w4 else w4);
           w6 = save_config E config' w5;
           w7 = print TestingConnection (print (UsingModel (py_str model)) (print ConfigSaved w6))
       in case test_connection E config' w7 of
            (True, w8) \<Rightarrow> (Inr config', print ConnectionOk w8)
          | (False, w8) \<Rightarrow> (Inr config', print ConnectionFailed w8)))"

section \<open>main\<close>

text \<open>
  \<open>main E argv w\<close> is the exit status of the process and the world it leaves.
  \<^verbatim>\<open>sys.exit(1)\<close> and an exception that nothing catches both end the process with
  status 1; returning from \<^verbatim>\<open>main\<close> ends it with status 0.
\<close>

definition finish :: "(pyexn + 'a) \<times> world \<Rightarrow> nat \<times> world" where
  "finish r = (case r of (Inl e, w) \<Rightarrow> (1, w) | (Inr x, w) \<Rightarrow> (0, w))"

definition main :: "env \<Rightarrow> string list \<Rightarrow> world \<Rightarrow> nat \<times> world" where
  "main E argv w =
     (let config = load_config E w in
      if length argv < 2 then (1, print Usage w)
      else if argv ! 1 = ''--setup'' then finish (setup_app E config w)
      else
        (case dict_get config ''url'' JNull of
           Inl e \<Rightarrow> (1, w)
         | Inr url \<Rightarrow>
             if \<not> truthy url then
               (case setup_app E config (print NoConfigRunningSetup w) of
                  (Inl e, w1) \<Rightarrow> (1, w1)
                | (Inr c, w1) \<Rightarrow> (0, print NowYouCanRun w1))
             else finish (process_file E config (argv ! 1) w)))"

section \<open>The json module\<close>

text \<open>
  A model of \<^verbatim>\<open>json.dump(obj, f, indent=2)\<close> and of \<^verbatim>\<open>json.load\<close> on the values of
  type \<open>json\<close>. The program's functions take the module from the environment
  (\<open>json_dumps\<close>, \<open>json_loads\<close>): what is proved of them holds for every module. The
  example installation below uses this model.
\<close>

text \<open>
  The text that \<^verbatim>\<open>json.dump(obj, f, indent=2)\<close> writes: members on lines of their own,
  indented by two spaces a level; in a string, the characters outside \<open>0x20..0x7E\<close>,
  the double quote and the backslash are escaped.
\<close>

definition escape_char :: "char \<Rightarrow> string" where
  "escape_char c =
     (let n = (of_char c :: nat) in
      if c = CHR 0x22 then [CHR 0x5C, CHR 0x22]
      else if c = CHR 0x5C then [CHR 0x5C, CHR 0x5C]
      else if n = 10 then [CHR 0x5C, CHR ''n'']
      else if n = 13 then [CHR 0x5C, CHR ''r'']
      else if n = 9 then [CHR 0x5C, CHR ''t'']
      else if n = 8 then [CHR 0x5C, CHR ''b'']
      else if n = 12 then [CHR 0x5C, CHR ''f'']
      else if n < 32 \<or> 126 < n
        then [CHR 0x5C, CHR ''u'', CHR ''0'', CHR ''0'', hex_digit (n div 16), hex_digit (n mod 16)]
      else [c])"

definition dump_str :: "string \<Rightarrow> string" where
  "dump_str s = CHR 0x22 # concat (map escape_char s) @ [CHR 0x22]"

definition newline_indent :: "nat \<Rightarrow> string" where
  "newline_indent level = CHR 0x0A # replicate (2 * level) CHR '' ''"

fun dump_indent :: "nat \<Rightarrow> json \<Rightarrow> string" where
  "dump_indent level JNull = ''null''"
| "dump_indent level (JBool b) = (if b then ''true'' else ''false'')"
| "dump_indent level (JInt i) = dec_int i"
| "dump_indent level (JStr s) = dump_str s"
| "dump_indent level (JArr xs) =
     (if xs = [] then ''[]''
      else ''['' @ newline_indent (level + 1)
           @ py_join ('','' @ newline_indent (level + 1)) (map (dump_indent (level + 1)) xs)
           @ newline_indent level @ '']'')"
| "dump_indent level (JObj kvs) =
     (if kvs = [] then ''{}''
      else ''{'' @ newline_indent (level + 1)
           @ py_join ('','' @ newline_indent (level + 1))
               (map (\<lambda>kv. dump_str (fst kv) @ '': '' @ dump_indent (level + 1) (snd kv)) kvs)
           @ newline_indent level @ ''}'')"

text \<open>
  \<open>json_parse\<close> reads a JSON text: white space, objects, arrays, strings with their
  escapes, integers and the three literals; in an object a repeated key keeps its first
  place and its last value. It gives \<open>None\<close> where \<^verbatim>\<open>json.load\<close> raises, and also for
  what the values of type \<open>json\<close> leave out: a floating-point number, and an escape for
  a code point from 256 on. \<open>parse_value n\<close> reads one value with \<open>n\<close> levels of recursion
  to spend, and \<open>json_parse\<close> gives it the length of the text.
\<close>

definition is_json_ws :: "char \<Rightarrow> bool" where
  "is_json_ws c = (c = CHR '' '' \<or> c = CHR 0x09 \<or> c = CHR 0x0A \<or> c = CHR 0x0D)"

definition skip_ws :: "string \<Rightarrow> string" where
  "skip_ws s = dropWhile is_json_ws s"

definition hex_val :: "char \<Rightarrow> nat option" where
  "hex_val c =
     (let n = (of_char c :: nat) in
      if 48 \<le> n \<and> n \<le> 57 then Some (n - 48)
      else if 97 \<le> n \<and> n \<le> 102 then Some (n - 87)
      else if 65 \<le> n \<and> n \<le> 70 then Some (n - 55)
      else None)"

definition hex4 :: "char \<Rightarrow> char \<Rightarrow> char \<Rightarrow> char \<Rightarrow> nat option" where
  "hex4 a b c d =
     (case (hex_val a, hex_val b, hex_val c, hex_val d) of
        (Some x, Some y, Some z, Some w) \<Rightarrow> Some (((x * 16 + y) * 16 + z) * 16 + w)
      | _ \<Rightarrow> None)"

definition unescape :: "char \<Rightarrow> char option" where
  "unescape e =
     (if e = CHR 0x22 then Some (CHR 0x22)
      else if e = CHR 0x5C then Some (CHR 0x5C)
      else if e = CHR ''/'' then Some (CHR ''/'')
      else if e = CHR ''b'' then Some (CHR 0x08)
      else if e = CHR ''f'' then Some (CHR 0x0C)
      else if e = CHR ''n'' then Some (CHR 0x0A)
      else if e = CHR ''r'' then Some (CHR 0x0D)
      else if e = CHR ''t'' then Some (CHR 0x09)
      else None)"

definition cons_fst :: "'a \<Rightarrow> ('a list \<times> 'b) option \<Rightarrow> ('a list \<times> 'b) option" where
  "cons_fst x r = map_option (\<lambda>(xs, rest). (x # xs, rest)) r"

fun parse_str :: "string \<Rightarrow> (string \<times> string) option" where
  "parse_str [] = None"
| "parse_str (c # s) =
     (if c = CHR 0x22 then Some ([], s)
      else if c = CHR 0x5C then
        (case s of
           [] \<Rightarrow> None
         | e # s1 \<Rightarrow>
             if e = CHR ''u'' then
               (case s1 of
                  h1 # h2 # h3 # h4 # s2 \<Rightarrow>
                    (case hex4 h1 h2 h3 h4 of
                       None \<Rightarrow> None
                     | Some n \<Rightarrow> if n < 256 then cons_fst (char_of n) (parse_str s2) else None)
                | _ \<Rightarrow> None)
             else
               (case unescape e of
                  None \<Rightarrow> None
                | Some ch \<Rightarrow> cons_fst ch (parse_str s1)))
      else if (of_char c :: nat) < 32 then None
      else cons_fst c (parse_str s))"

definition is_digit :: "char \<Rightarrow> bool" where
  "is_digit c = (48 \<le> (of_char c :: nat) \<and> (of_char c :: nat) \<le> 57)"

definition digits_val :: "string \<Rightarrow> nat" where
  "digits_val ds = foldl (\<lambda>acc c. acc * 10 + (of_char c - 48)) 0 ds"

definition parse_nat :: "string \<Rightarrow> (nat \<times> string) option" where
  "parse_nat s =
     (case s of
        [] \<Rightarrow> None
      | c # r \<Rightarrow>
          if c = CHR ''0'' then Some (0, r)
          else if is_digit c then Some (digits_val (takeWhile is_digit s), dropWhile is_digit s)
          else None)"

definition parse_int :: "string \<Rightarrow> (json \<times> string) option" where
  "parse_int s =
     (case (case s of
              [] \<Rightarrow> None
            | c # r \<Rightarrow> if c = CHR ''-'' then map_option (\<lambda>(n, t). (- int n, t)) (parse_nat r)
                       else map_option (\<lambda>(n, t). (int n, t)) (parse_nat s)) of
        None \<Rightarrow> None
      | Some (i, t) \<Rightarrow>
          (case t of
             [] \<Rightarrow> Some (JInt i, t)
           | c # r \<Rightarrow> if c = CHR ''.'' \<or> c = CHR ''e'' \<or> c = CHR ''E'' then None
                      else Some (JInt i, t)))"

fun dict_update :: "string \<Rightarrow> json \<Rightarrow> (string \<times> json) list \<Rightarrow> (string \<times> json) list" where
  "dict_update k v [] = [(k, v)]"
| "dict_update k v (p # ps) = (if fst p = k then (k, v) # ps else p # dict_update k v ps)"

definition dict_of :: "(string \<times> json) list \<Rightarrow> (string \<times> json) list" where
  "dict_of kvs = foldl (\<lambda>d kv. dict_update (fst kv) (snd kv) d) [] kvs"

fun parse_value :: "nat \<Rightarrow> string \<Rightarrow> (json \<times> string) option"
  and parse_elems :: "nat \<Rightarrow> string \<Rightarrow> (json list \<times> string) option"
  and parse_members :: "nat \<Rightarrow> string \<Rightarrow> ((string \<times> json) list \<times> string) option" where
  "parse_value 0 s = None"
| "parse_value (Suc n) s =
     (case skip_ws s of
        [] \<Rightarrow> None
      | c # r \<Rightarrow>
          if c = CHR 0x22 then map_option (\<lambda>(x, t). (JStr x, t)) (parse_str r)
          else if c = CHR ''{'' then
            (if prefix ''}'' (skip_ws r) then Some (JObj [], drop 1 (skip_ws r))
             else map_option (\<lambda>(kvs, t). (JObj (dict_of kvs), t)) (parse_members n r))
          else if c = CHR ''['' then
            (if prefix '']'' (skip_ws r) then Some (JArr [], drop 1 (skip_ws r))
             else map_option (\<lambda>(xs, t). (JArr xs, t)) (parse_elems n r))
          else if prefix ''true'' (c # r) then Some (JBool True, drop 4 (c # r))
          else if prefix ''false'' (c # r) then Some (JBool False, drop 5 (c # r))
          else if prefix ''null'' (c # r) then Some (JNull, drop 4 (c # r))
          else parse_int (c # r))"
| "parse_elems 0 s = None"
| "parse_elems (Suc n) s =
     (case parse_value n s of
        None \<Rightarrow> None
      | Some (v, t) \<Rightarrow>
          (case skip_ws t of
             [] \<Rightarrow> None
           | c # r \<Rightarrow>
               if c = CHR '','' then cons_fst v (parse_elems n r)
               else if c = CHR '']'' then Some ([v], r)
               else None))"
| "parse_members 0 s = None"
| "parse_members (Suc n) s =
     (case skip_ws s of
        [] \<Rightarrow> None
      | q # r \<Rightarrow>
          if q \<noteq> CHR 0x22 then None
          else
            (case parse_str r of
               None \<Rightarrow> None
             | Some (k, t) \<Rightarrow>
                 (case skip_ws t of
                    [] \<Rightarrow> None
                  | c # t1 \<Rightarrow>
                      if c \<noteq> CHR '':'' then None
                      else
                        (case parse_value n t1 of
                           None \<Rightarrow> None
                         | Some (v, t2) \<Rightarrow>
                             (case skip_ws t2 of
                                [] \<Rightarrow> None
                              | d # t3 \<Rightarrow>
                                  if d = CHR '','' then cons_fst (k, v) (parse_members n t3)
                                  else if d = CHR ''}'' then Some ([(k, v)], t3)
                                  else None)))))"

definition json_parse :: "string \<Rightarrow> json option" where
  "json_parse s =
     (case parse_value (length s) s of
        None \<Rightarrow> None
      | Some (v, t) \<Rightarrow> if skip_ws t = [] then Some v else None)"

section \<open>An example installation\<close>

text \<open>
  The environment and the world of the examples: the configuration file holds
  \<open>example_config\<close> as \<^verbatim>\<open>json.dump\<close> writes it, the directory holds the diff
  \<^verbatim>\<open>fix.diff\<close>, and the completion service answers every request with one choice.
\<close>

definition example_config :: json where
  "example_config =
     JObj [(''url'', JStr ''http://localhost:11434/v1''), (''port'', JStr ''8080''),
           (''key'', JStr []), (''model'', JStr ''llama2'')]"

definition example_env :: env where
  "example_env =
     \<lparr>home = ''/home/user'',
      json_loads = json_parse,
      json_dumps = dump_indent 0,
      chat_create = (\<lambda>calls rq. Completion [Some ''### Fixed\<newline>- bug''])\<rparr>"

definition example_world :: world where
  "example_world =
     \<lparr>fs_files = [''/home/user/.apikey'' \<mapsto> dump_indent 0 example_config,
                  ''fix.diff'' \<mapsto> ''- bug\<newline>+ fix'',
                  ''blank.diff'' \<mapsto> '' \<newline>  ''],
      fs_read_fault = Map.empty,
      fs_write_fault = Map.empty,
      fs_chmod_fault = Map.empty,
      fs_modes = Map.empty,
      console = [],
      api_calls = [],
      stdin = []\<rparr>"

section \<open>Facts about the string operations\<close>

lemma bind_exn_simps [simp]:
  "bind_exn (Inl e) f = Inl e"
  "bind_exn (Inr x) f = f x"
  by (simp_all add: bind_exn_def)

lemma py_in_iff: "py_in sub s \<longleftrightarrow> (\<exists>ps ss. s = ps @ sub @ ss)"
proof (induction s)
  case Nil
  then show ?case by auto
next
  case (Cons c cs)
  show ?case
  proof
    assume "py_in sub (c # cs)"
    then consider "prefix sub (c # cs)" | "py_in sub cs" by auto
    then show "\<exists>ps ss. c # cs = ps @ sub @ ss"
    proof cases
      case 1
      then obtain ss where "c # cs = sub @ ss" by (auto simp: prefix_def)
      then have "c # cs = [] @ sub @ ss" by simp
      then show ?thesis by blast
    next
      case 2
      with Cons.IH obtain ps ss where "cs = ps @ sub @ ss" by blast
      then have "c # cs = (c # ps) @ sub @ ss" by simp
      then show ?thesis by blast
    qed
  next
    assume "\<exists>ps ss. c # cs = ps @ sub @ ss"
    then obtain ps ss where eq: "c # cs = ps @ sub @ ss" by blast
    show "py_in sub (c # cs)"
    proof (cases ps)
      case Nil
      with eq have "prefix sub (c # cs)" by (simp add: prefix_def)
      then show ?thesis by simp
    next
      case (Cons p ps')
      with eq have "cs = ps' @ sub @ ss" by simp
      with Cons.IH have "py_in sub cs" by blast
      then show ?thesis by simp
    qed
  qed
qed

lemma py_in_single: "py_in [d] s \<longleftrightarrow> d \<in> set s"
  by (induction s) auto

lemma split_from_zero: "split_from sep (Some 0) s = [s]"
  by (induction s) auto

lemma split_from_nonempty: "split_from sep n s \<noteq> []"
  by (induction sep n s rule: split_from.induct) (auto split: list.splits)

lemma prefix_append_long: "length sep \<le> length xs \<Longrightarrow> prefix sep (xs @ ys) = prefix sep xs"
  by (metis prefix_append prefix_length_le  prefix_order.dual_order.refl prefix_prefix  append_eq_append_conv_if prefix_def take_all_iff)

lemma split_first_occurrence:
  assumes "sep \<noteq> []" "\<not> py_in sep (a @ butlast sep)"
  shows "split_from sep (Some 1) (a @ sep @ b) = [a, b]"
  using assms
proof (induction a)
  case Nil
  then show ?case by (cases sep) (simp_all add: split_from_zero)
next
  case (Cons c cs)
  have len: "length sep \<le> length ((c # cs) @ butlast sep)" by simp
  from Cons.prems have np: "\<not> prefix sep ((c # cs) @ butlast sep)" and ni: "\<not> py_in sep (cs @ butlast sep)"
    by auto
  have "(c # cs) @ sep @ b = ((c # cs) @ butlast sep) @ (last sep # b)"
    using Cons.prems(1) by (simp add: append_butlast_last_id[symmetric] del: append_butlast_last_id) 
  with np len have "\<not> prefix sep ((c # cs) @ sep @ b)"
    by (metis prefix_append_long)
  moreover have "split_from sep (Some 1) (cs @ sep @ b) = [cs, b]"
    using Cons.IH Cons.prems(1) ni by blast
  ultimately show ?case by simp
qed

lemma py_join_Cons: "ys \<noteq> [] \<Longrightarrow> py_join sep (x # ys) = x @ sep @ py_join sep ys"
  by (cases ys) simp_all

lemma hd_split_char: "hd (split_from [d] None s) = takeWhile (\<lambda>c. c \<noteq> d) s"
  by (induction s) (auto split: list.splits simp: split_from_nonempty)

lemma join_split_char: "py_join [d] (split_from [d] None s) = s"
proof (induction s)
  case Nil
  then show ?case by simp
next
  case (Cons c cs)
  show ?case
  proof (cases "c = d")
    case True
    then show ?thesis using Cons.IH by (simp add: py_join_Cons split_from_nonempty)
  next
    case False
    obtain p ps where sp: "split_from [d] None cs = p # ps"
      using split_from_nonempty by (cases "split_from [d] None cs") auto
    have "py_join [d] ((c # p) # ps) = c # py_join [d] (p # ps)"
      by (cases ps) simp_all
    with False sp Cons.IH show ?thesis by simp
  qed
qed

lemma tl_split_char:
  "d \<in> set s \<Longrightarrow> d # py_join [d] (tl (split_from [d] None s)) = dropWhile (\<lambda>c. c \<noteq> d) s"
proof (induction s)
  case Nil
  then show ?case by simp
next
  case (Cons c cs)
  show ?case
  proof (cases "c = d")
    case True
    then show ?thesis by (simp add: join_split_char)
  next
    case False
    obtain p ps where sp: "split_from [d] None cs = p # ps"
      using split_from_nonempty by (cases "split_from [d] None cs") auto
    from False Cons.prems have "d \<in> set cs" by simp
    with Cons.IH sp have "d # py_join [d] ps = dropWhile (\<lambda>c. c \<noteq> d) cs" by simp
    with False sp show ?thesis by simp
  qed
qed

lemma py_index0_split: "py_index0 (split_from sep n s) = Inr (hd (split_from sep n s))"
  using split_from_nonempty [of sep n s] by (cases "split_from sep n s") simp_all

lemma takeWhile_twice:
  "takeWhile (\<lambda>c. c \<noteq> b) (takeWhile (\<lambda>c. c \<noteq> a) s) = takeWhile (\<lambda>c. c \<noteq> a \<and> c \<noteq> b) s"
  by (induction s) auto


lemma first_occurrence_exists:
  assumes "sep \<noteq> []" and "py_in sep s"
  shows "\<exists>a b. s = a @ sep @ b \<and> \<not> py_in sep (a @ butlast sep)"
  using assms
proof (induction s)
  case Nil
  then show ?case by simp
next
  case (Cons c cs)
  show ?case
  proof (cases "prefix sep (c # cs)")
    case True
    then obtain b where b: "c # cs = sep @ b" by (auto simp: prefix_def)
    have "\<not> py_in sep (butlast sep)"
    proof
      assume "py_in sep (butlast sep)"
      then obtain ps ss where "butlast sep = ps @ sep @ ss" unfolding py_in_iff by blast
      then have "length (butlast sep) = length ps + length sep + length ss" by simp
      moreover have "length (butlast sep) < length sep" using \<open>sep \<noteq> []\<close> by simp
      ultimately show False by arith
    qed
    with b have "c # cs = [] @ sep @ b \<and> \<not> py_in sep ([] @ butlast sep)" by simp
    then show ?thesis by blast
  next
    case False
    with Cons.prems have "py_in sep cs" by simp
    with Cons.IH Cons.prems(1) obtain a b
      where ab: "cs = a @ sep @ b" "\<not> py_in sep (a @ butlast sep)" by blast
    have "sep \<noteq> []" by (rule Cons.prems(1))
    then have len: "length sep \<le> length ((c # a) @ butlast sep)" by simp
    have "(c # a) @ sep @ b = ((c # a) @ butlast sep) @ (last sep # b)"
      using \<open>sep \<noteq> []\<close> by (simp add: append_butlast_last_id[symmetric] del: append_butlast_last_id)
    with False ab(1) len have "\<not> prefix sep ((c # a) @ butlast sep)"
      by (metis append_Cons prefix_append_long)
    with ab have "c # cs = (c # a) @ sep @ b \<and> \<not> py_in sep ((c # a) @ butlast sep)" by simp
    then show ?thesis by blast
  qed
qed

lemma py_strip_empty_iff: "py_strip s = [] \<longleftrightarrow> (\<forall>c\<in>set s. is_space c)"
proof
  assume e: "py_strip s = []"
  then have e': "dropWhile is_space (rev (dropWhile is_space s)) = []"
    unfolding py_strip_def by (simp only: rev_is_Nil_conv)
  show "\<forall>c\<in>set s. is_space c"
  proof (rule ccontr)
    assume "\<not> (\<forall>c\<in>set s. is_space c)"
    then have ne: "dropWhile is_space s \<noteq> []" by (simp add: dropWhile_eq_Nil_conv)
    then have "\<not> is_space (hd (dropWhile is_space s))" by (rule hd_dropWhile)
    moreover have "hd (dropWhile is_space s) \<in> set (rev (dropWhile is_space s))"
      using ne by simp
    ultimately have "\<not> (\<forall>c\<in>set (rev (dropWhile is_space s)). is_space c)" by blast
    then have "dropWhile is_space (rev (dropWhile is_space s)) \<noteq> []"
      by (simp only: dropWhile_eq_Nil_conv not_False_eq_True)
    with e' show False by blast
  qed
next
  assume "\<forall>c\<in>set s. is_space c"
  then have "dropWhile is_space s = []" by (simp add: dropWhile_eq_Nil_conv)
  then show "py_strip s = []" by (simp only: py_strip_def rev.simps dropWhile.simps)
qed

lemma py_rstrip_empty_iff: "py_rstrip chars s = [] \<longleftrightarrow> set s \<subseteq> set chars"
  by (auto simp: py_rstrip_def dropWhile_eq_Nil_conv)

section \<open>Facts about the json module\<close>

lemma of_char_less_256: "(of_char c :: nat) < 256"
proof -
  have "(of_char c :: nat) mod 256 = of_char c" by simp
  then show ?thesis by (metis mod_less_divisor zero_less_numeral)
qed

lemma hex_val_hex_digit: "d < 16 \<Longrightarrow> hex_val (hex_digit d) = Some d"
  by (simp add: hex_val_def hex_digit_def Let_def)

lemma hex4_byte:
  assumes "n < 256"
  shows "hex4 (CHR ''0'') (CHR ''0'') (hex_digit (n div 16)) (hex_digit (n mod 16)) = Some n"
proof -
  have a: "n div 16 < 16" using assms by simp
  have b: "n mod 16 < 16" by simp
  have z: "hex_val (CHR ''0'') = Some 0" by (simp add: hex_val_def)
  show ?thesis
    by (simp add: hex4_def z hex_val_hex_digit [OF a] hex_val_hex_digit [OF b])
qed

lemma char_eqI: "(of_char c :: nat) = of_char d \<Longrightarrow> c = d"
  by simp

lemma parse_str_escape_char: "parse_str (escape_char c @ t) = cons_fst c (parse_str t)"
proof -
  let ?n = "of_char c :: nat"
  have lt: "?n < 256" by (rule of_char_less_256)
  consider (quote) "c = CHR 0x22" | (bs) "c = CHR 0x5C"
    | (nl) "?n = 10" | (cr) "?n = 13" | (tab) "?n = 9" | (b) "?n = 8" | (f) "?n = 12"
    | (u) "c \<noteq> CHR 0x22" "c \<noteq> CHR 0x5C" "?n \<noteq> 10" "?n \<noteq> 13" "?n \<noteq> 9" "?n \<noteq> 8" "?n \<noteq> 12"
          "?n < 32 \<or> 126 < ?n"
    | (plain) "c \<noteq> CHR 0x22" "c \<noteq> CHR 0x5C" "32 \<le> ?n" "?n \<le> 126"
    by linarith
  then show ?thesis
  proof cases
    case quote
    then show ?thesis by (simp add: escape_char_def unescape_def)
  next
    case bs
    then show ?thesis by (simp add: escape_char_def unescape_def)
  next
    case nl
    then have "c = CHR 0x0A" by (intro char_eqI) simp
    then show ?thesis by (simp add: escape_char_def unescape_def)
  next
    case cr
    then have "c = CHR 0x0D" by (intro char_eqI) simp
    then show ?thesis by (simp add: escape_char_def unescape_def)
  next
    case tab
    then have "c = CHR 0x09" by (intro char_eqI) simp
    then show ?thesis by (simp add: escape_char_def unescape_def)
  next
    case b
    then have "c = CHR 0x08" by (intro char_eqI) simp
    then show ?thesis by (simp add: escape_char_def unescape_def)
  next
    case f
    then have "c = CHR 0x0C" by (intro char_eqI) simp
    then show ?thesis by (simp add: escape_char_def unescape_def)
  next
    case u
    have e: "escape_char c = [CHR 0x5C, CHR ''u'', CHR ''0'', CHR ''0'',
                              hex_digit (?n div 16), hex_digit (?n mod 16)]"
      using u by (simp add: escape_char_def Let_def)
    have c: "char_of ?n = c" by simp
    show ?thesis
      unfolding e using lt by (simp add: hex4_byte c)
  next
    case plain
    then have e: "escape_char c = [c]" by (simp add: escape_char_def Let_def)
    show ?thesis unfolding e using plain by simp
  qed
qed

lemma parse_str_dump: "parse_str (concat (map escape_char s) @ CHR 0x22 # t) = Some (s, t)"
proof (induction s)
  case Nil
  then show ?case by simp
next
  case (Cons c s)
  have "parse_str (concat (map escape_char (c # s)) @ CHR 0x22 # t)
          = parse_str (escape_char c @ (concat (map escape_char s) @ CHR 0x22 # t))"
    by simp
  also have "\<dots> = cons_fst c (parse_str (concat (map escape_char s) @ CHR 0x22 # t))"
    by (rule parse_str_escape_char)
  also have "\<dots> = Some (c # s, t)" by (simp add: Cons.IH cons_fst_def)
  finally show ?case .
qed

lemma skip_ws_newline_indent: "skip_ws (newline_indent l @ t) = skip_ws t"
  by (simp add: skip_ws_def newline_indent_def is_json_ws_def dropWhile_append)

lemma skip_ws_quote: "skip_ws (CHR 0x22 # t) = CHR 0x22 # t"
  by (simp add: skip_ws_def is_json_ws_def)

lemma parse_value_dump_str:
  "parse_value (Suc n) (CHR '' '' # dump_str v @ t) = Some (JStr v, t)"
  by (simp add: skip_ws_def is_json_ws_def dump_str_def parse_str_dump)

lemma parse_members_more:
  "parse_members (Suc (Suc n))
     (newline_indent l @ dump_str key @ '': '' @ dump_str v @ '','' @ rest)
   = cons_fst (key, JStr v) (parse_members (Suc n) rest)"
proof -
  have k: "parse_str (concat (map escape_char key) @ CHR 0x22 # ('': '' @ dump_str v @ '','' @ rest))
             = Some (key, '': '' @ dump_str v @ '','' @ rest)"
    by (rule parse_str_dump)
  have w: "skip_ws (newline_indent l @ dump_str key @ '': '' @ dump_str v @ '','' @ rest)
             = CHR 0x22 # concat (map escape_char key) @ CHR 0x22 # ('': '' @ dump_str v @ '','' @ rest)"
    by (simp add: skip_ws_newline_indent) (simp add: dump_str_def skip_ws_quote)
  have c: "skip_ws ('': '' @ dump_str v @ '','' @ rest) = CHR '':'' # CHR '' '' # dump_str v @ '','' @ rest"
    by (simp add: skip_ws_def is_json_ws_def)
  have v: "parse_value (Suc n) (CHR '' '' # dump_str v @ '','' @ rest) = Some (JStr v, '','' @ rest)"
    by (rule parse_value_dump_str)
  have e: "skip_ws ('','' @ rest) = CHR '','' # rest"
    by (simp add: skip_ws_def is_json_ws_def)
  show ?thesis
    by (simp only: parse_members.simps w k c v e list.case option.case prod.case
          if_False if_True simp_thms)
qed

lemma parse_members_last:
  "parse_members (Suc (Suc n))
     (newline_indent l @ dump_str key @ '': '' @ dump_str v @ newline_indent l' @ ''}'' @ rest)
   = Some ([(key, JStr v)], rest)"
proof -
  let ?t = "newline_indent l' @ ''}'' @ rest"
  have k: "parse_str (concat (map escape_char key) @ CHR 0x22 # ('': '' @ dump_str v @ ?t))
             = Some (key, '': '' @ dump_str v @ ?t)"
    by (rule parse_str_dump)
  have w: "skip_ws (newline_indent l @ dump_str key @ '': '' @ dump_str v @ ?t)
             = CHR 0x22 # concat (map escape_char key) @ CHR 0x22 # ('': '' @ dump_str v @ ?t)"
    by (simp add: skip_ws_newline_indent) (simp add: dump_str_def skip_ws_quote)
  have c: "skip_ws ('': '' @ dump_str v @ ?t) = CHR '':'' # CHR '' '' # dump_str v @ ?t"
    by (simp add: skip_ws_def is_json_ws_def)
  have v: "parse_value (Suc n) (CHR '' '' # dump_str v @ ?t) = Some (JStr v, ?t)"
    by (rule parse_value_dump_str)
  have e: "skip_ws ?t = CHR ''}'' # rest"
    by (simp add: skip_ws_newline_indent) (simp add: skip_ws_def is_json_ws_def)
  have ne: "CHR ''}'' \<noteq> CHR '',''" by simp
  show ?thesis
    by (simp only: parse_members.simps w k c v e list.case option.case prod.case ne
          if_False if_True simp_thms)
qed

lemma json_parse_dump_config:
  "json_parse (dump_indent 0 (JObj [(''url'', JStr u), (''port'', JStr p),
                                    (''key'', JStr k), (''model'', JStr m)]))
   = Some (JObj [(''url'', JStr u), (''port'', JStr p), (''key'', JStr k), (''model'', JStr m)])"
proof -
  let ?c = "JObj [(''url'', JStr u), (''port'', JStr p), (''key'', JStr k), (''model'', JStr m)]"
  let ?m4 = "newline_indent 1 @ dump_str ''model'' @ '': '' @ dump_str m @ newline_indent 0 @ ''}'' @ []"
  let ?m3 = "newline_indent 1 @ dump_str ''key'' @ '': '' @ dump_str k @ '','' @ ?m4"
  let ?m2 = "newline_indent 1 @ dump_str ''port'' @ '': '' @ dump_str p @ '','' @ ?m3"
  let ?m1 = "newline_indent 1 @ dump_str ''url'' @ '': '' @ dump_str u @ '','' @ ?m2"
  have shape: "dump_indent 0 ?c = CHR ''{'' # ?m1" by simp
  have members: "parse_members (Suc (Suc (Suc (Suc (Suc n))))) ?m1
          = Some ([(''url'', JStr u), (''port'', JStr p), (''key'', JStr k), (''model'', JStr m)], [])"
    for n
    by (simp only: parse_members_more parse_members_last cons_fst_def option.map prod.case)
  have open_brace: "skip_ws (CHR ''{'' # ?m1) = CHR ''{'' # ?m1"
    by (simp add: skip_ws_def is_json_ws_def)
  have first: "skip_ws ?m1 = CHR 0x22 # concat (map escape_char ''url'') @ CHR 0x22 #
                 ('': '' @ dump_str u @ '','' @ ?m2)"
    by (simp add: skip_ws_newline_indent) (simp add: dump_str_def skip_ws_quote)
  have np: "\<not> prefix ''}'' (skip_ws ?m1)" unfolding first by simp
  have dict: "dict_of [(''url'', JStr u), (''port'', JStr p), (''key'', JStr k), (''model'', JStr m)]
          = [(''url'', JStr u), (''port'', JStr p), (''key'', JStr k), (''model'', JStr m)]"
    by (simp add: dict_of_def)
  have pv: "parse_value (Suc (Suc (Suc (Suc (Suc (Suc n)))))) (CHR ''{'' # ?m1) = Some (?c, [])" for n
    by (simp only: parse_value.simps open_brace list.case np members dict option.map prod.case
          if_False if_True simp_thms) simp
  have "6 \<le> length (CHR ''{'' # ?m1)" by (simp add: newline_indent_def)
  then obtain n where len: "length (CHR ''{'' # ?m1) = 6 + n"
    using le_Suc_ex by blast
  have six: "6 + n = Suc (Suc (Suc (Suc (Suc (Suc n)))))" by arith
  have n: "length (CHR ''{'' # ?m1) = Suc (Suc (Suc (Suc (Suc (Suc n)))))"
    by (simp only: len six)
  show ?thesis
    unfolding json_parse_def shape n pv by (simp add: skip_ws_def)
qed

lemma json_parse_empty_list: "json_parse ''[]'' = Some (JArr [])"
  by (simp add: json_parse_def eval_nat_numeral skip_ws_def is_json_ws_def)

section \<open>Facts about paths\<close>













section \<open>Facts about the configuration and the client\<close>


lemma get_api_url_None_iff:
  assumes "dict_get config ''url'' (JStr []) = Inr (JStr raw)"
    and "dict_get config ''port'' (JStr []) = Inr port"
  shows "get_api_url config = Inr None \<longleftrightarrow> py_rstrip ''/'' raw = []"
  using assms
  by (cases "split_from ''://'' (Some 1) (py_rstrip ''/'' raw)")
     (auto simp: get_api_url_def py_index0_split split: list.splits)


lemma load_config_fallback:
  "\<not> path_exists w (config_file E) \<or> read_text w (config_file E) = Inl e
     \<or> (read_text w (config_file E) = Inr text \<and> json_loads E text = None)
   \<Longrightarrow> load_config E w = JObj []"
  by (auto simp: load_config_def)

lemma load_config_parsed:
  "path_exists w (config_file E) \<Longrightarrow> read_text w (config_file E) = Inr text
     \<Longrightarrow> json_loads E text = Some v \<Longrightarrow> load_config E w = v"
  by (simp add: load_config_def)

lemma dict_get_missing: "k \<notin> fst ` set kvs \<Longrightarrow> dict_get (JObj kvs) k d = Inr d"
  by (simp add: map_of_eq_None_iff [THEN iffD2])

lemma load_config_defaults:
  assumes "load_config E w = JObj kvs" and "k \<notin> fst ` set kvs"
  shows "dict_get (load_config E w) k d = Inr d"
  using assms dict_get_missing [of k kvs d] by simp

lemma save_then_load_any_module:
  assumes wr: "fs_write_fault w (config_file E) = None"
    and rd: "fs_read_fault w (config_file E) = None"
    and lib: "json_loads E (json_dumps E config) = Some config"
  shows "load_config E (save_config E config w) = config"
proof -
  let ?p = "config_file E"
  have files: "fs_files (save_config E config w) ?p = Some (json_dumps E config)"
    using wr by (simp add: save_config_def write_text_def chmod_def print_def
        split: option.splits prod.splits)
  have fault: "fs_read_fault (save_config E config w) ?p = None"
    using wr rd by (simp add: save_config_def write_text_def chmod_def print_def
        split: option.splits prod.splits)
  show ?thesis
    using files fault lib by (simp add: load_config_def path_exists_def read_text_def)
qed

section \<open>The example installation, evaluated\<close>

lemma example_config_file: "config_file example_env = ''/home/user/.apikey''"
  by (simp add: config_file_def example_env_def path_str_def path_join_def path_parse_def)










section \<open>Exit status\<close>




section \<open>Empty input\<close>

text \<open>
  Claim C2. When the text read from the input file is empty once stripped (by
  \<open>py_strip_empty_iff\<close>: when it holds white space only, the empty text included),
  \<open>process_file\<close> prints that the file is empty and returns; no request is sent to the
  completion service.
\<close>

theorem process_file_empty_input:
  assumes "read_text w filepath = Inr text"
    and "py_strip text = []"
  shows "process_file E config filepath w = (Inr (), print FileEmpty w)
       \<and> api_calls (snd (process_file E config filepath w)) = api_calls w"
  using assms by (simp add: process_file_def print_def)

theorem process_file_empty_input_witness:
  "read_text example_world ''blank.diff'' = Inr '' \<newline>  ''
   \<and> py_strip '' \<newline>  '' = []
   \<and> process_file example_env example_config ''blank.diff'' example_world
       = (Inr (), print FileEmpty example_world)
   \<and> api_calls (snd (process_file example_env example_config ''blank.diff'' example_world)) = []"
proof -
  have h1: "read_text example_world ''blank.diff'' = Inr '' \<newline>  ''"
    by (simp add: read_text_def example_world_def)
  have h2: "py_strip '' \<newline>  '' = []"
    by (simp add: py_strip_def is_space_def)
  have "api_calls example_world = []" by (simp add: example_world_def)
  with process_file_empty_input [OF h1 h2, of example_env example_config] h1 h2
  show ?thesis by (simp add: print_def)
qed

section \<open>Loading the configuration\<close>

text \<open>
  Claim C3 at a configuration file that holds the JSON text \<^verbatim>\<open>[]\<close>. \<open>load_config\<close>
  returns the empty list, which is no record: it has no \<^verbatim>\<open>get\<close>, the first read of a
  field raises \<^verbatim>\<open>AttributeError\<close>, and nothing catches it, so the process ends with
  status 1. (For a file that is missing, unreadable or unparseable \<open>load_config\<close> is
  the empty dict, \<open>load_config_fallback\<close>, and every field that a loaded dict lacks reads
  as its default, \<open>load_config_defaults\<close>.)
\<close>

theorem load_config_not_a_record:
  "load_config example_env
     (example_world\<lparr>fs_files := (fs_files example_world)(''/home/user/.apikey'' \<mapsto> ''[]'')\<rparr>)
     = JArr []
   \<and> dict_get (JArr []) ''url'' (JStr []) = Inl (no_attribute (JArr []) ''get'')
   \<and> fst (main example_env [''chng'', ''fix.diff'']
        (example_world\<lparr>fs_files := (fs_files example_world)(''/home/user/.apikey'' \<mapsto> ''[]'')\<rparr>))
     = 1"
proof -
  let ?w = "example_world\<lparr>fs_files := (fs_files example_world)(''/home/user/.apikey'' \<mapsto> ''[]'')\<rparr>"
  have l: "load_config example_env ?w = JArr []"
    by (simp add: load_config_def example_config_file path_exists_def read_text_def)
       (simp add: example_env_def example_world_def json_parse_empty_list)
  show ?thesis using l by (simp add: main_def)
qed

section \<open>Endpoint resolution\<close>

text \<open>
  Claim C4. Let \<open>u\<close> be the configured url with its trailing slashes stripped, cut at
  its first \<open>://\<close> into \<open>scheme\<close> and \<open>rest\<close> (the separator does not occur earlier:
  \<open>first_occurrence_exists\<close> gives this cut for every \<open>u\<close> that contains \<open>://\<close>). For a
  non-empty port string such that \<open>:port\<close> does not occur in \<open>u\<close>, \<open>get_api_url\<close>
  returns \<open>scheme://host:port\<close> followed by the path, where the host is \<open>rest\<close> up to
  its first \<open>/\<close> or \<open>:\<close> and the path is \<open>rest\<close> from its first \<open>/\<close> on (empty when
  there is none).
\<close>

theorem get_api_url_injects:
  assumes url: "dict_get config ''url'' (JStr []) = Inr (JStr raw)"
    and port: "dict_get config ''port'' (JStr []) = Inr (JStr port)"
    and u: "py_rstrip ''/'' raw = scheme @ ''://'' @ rest"
    and first: "\<not> py_in ''://'' (scheme @ '':/'')"
    and "port \<noteq> []"
    and "\<not> py_in ('':'' @ port) (py_rstrip ''/'' raw)"
  shows "get_api_url config =
           Inr (Some (scheme @ ''://'' @ takeWhile (\<lambda>c. c \<noteq> CHR ''/'' \<and> c \<noteq> CHR '':'') rest
                        @ '':'' @ port @ dropWhile (\<lambda>c. c \<noteq> CHR ''/'') rest))"
proof -
  have sp: "split_from ''://'' (Some 1) (scheme @ ''://'' @ rest) = [scheme, rest]"
    using split_first_occurrence [of "''://''" scheme rest] first by simp
  have inu: "py_in ''://'' (scheme @ ''://'' @ rest)"
    unfolding py_in_iff by blast
  have host: "hd (split_from '':'' None (hd (split_from ''/'' None rest)))
                = takeWhile (\<lambda>c. c \<noteq> CHR ''/'' \<and> c \<noteq> CHR '':'') rest"
    by (simp add: hd_split_char takeWhile_twice)
  have path: "(if py_in ''/'' rest then ''/'' @ py_join ''/'' (py_slice1 (split_from ''/'' None rest)) else [])
                = dropWhile (\<lambda>c. c \<noteq> CHR ''/'') rest"
  proof (cases "CHR ''/'' \<in> set rest")
    case True
    then show ?thesis
      using tl_split_char [of "CHR ''/''" rest] by (simp add: py_in_single py_slice1_def drop_Suc)
  next
    case False
    then have d: "dropWhile (\<lambda>c. c \<noteq> CHR ''/'') rest = []" by (auto simp: dropWhile_eq_Nil_conv)
    show ?thesis unfolding d using False by (simp add: py_in_single)
  qed
  have ne: "scheme @ ''://'' @ rest \<noteq> []" by simp
  show ?thesis
    unfolding get_api_url_def url port
    using assms(5,6) inu ne
    by (simp only: bind_exn_simps method_rstrip.simps u py_str.simps truthy.simps
          py_split.simps sp list.case py_index0_split host path Let_def if_True if_False simp_thms)
qed

theorem get_api_url_injects_witness:
  "dict_get (JObj [(''url'', JStr ''http://localhost:11434/v1''), (''port'', JStr ''8080'')])
       ''url'' (JStr []) = Inr (JStr ''http://localhost:11434/v1'')
   \<and> py_rstrip ''/'' ''http://localhost:11434/v1'' = ''http'' @ ''://'' @ ''localhost:11434/v1''
   \<and> \<not> py_in ''://'' (''http'' @ '':/'')
   \<and> \<not> py_in ('':'' @ ''8080'') (py_rstrip ''/'' ''http://localhost:11434/v1'')
   \<and> get_api_url (JObj [(''url'', JStr ''http://localhost:11434/v1''), (''port'', JStr ''8080'')])
       = Inr (Some ''http://localhost:8080/v1'')"
proof -
  let ?c = "JObj [(''url'', JStr ''http://localhost:11434/v1''), (''port'', JStr ''8080'')]"
  have h1: "dict_get ?c ''url'' (JStr []) = Inr (JStr ''http://localhost:11434/v1'')" by simp
  have h2: "dict_get ?c ''port'' (JStr []) = Inr (JStr ''8080'')" by simp
  have h3: "py_rstrip ''/'' ''http://localhost:11434/v1'' = ''http'' @ ''://'' @ ''localhost:11434/v1''"
    by (simp add: py_rstrip_def)
  have h4: "\<not> py_in ''://'' (''http'' @ '':/'')" by simp
  have h5: "''8080'' \<noteq> []" by simp
  have h6: "\<not> py_in ('':'' @ ''8080'') (py_rstrip ''/'' ''http://localhost:11434/v1'')"
    by (simp add: py_rstrip_def)
  from get_api_url_injects [OF h1 h2 h3 h4 h5 h6] h1 h3 h4 h6 show ?thesis by simp
qed

text \<open>
  Claim C5, as the code has it. \<open>get_api_url\<close> returns \<open>None\<close> exactly when the
  configured url is empty once its trailing slashes are stripped (by
  \<open>py_rstrip_empty_iff\<close>: when it holds slashes only); \<open>get_client\<close> then prints that no
  url is configured and builds no client. When the stripped url is not empty and the
  port is empty, or \<open>:port\<close> occurs in the stripped url, or the stripped url has no
  \<open>://\<close>, the stripped url is returned as it is.
\<close>

theorem get_api_url_unchanged:
  assumes url: "dict_get config ''url'' (JStr []) = Inr (JStr raw)"
    and port: "dict_get config ''port'' (JStr []) = Inr (JStr port)"
  shows "(get_api_url config = Inr None \<longleftrightarrow> py_rstrip ''/'' raw = [])
       \<and> (py_rstrip ''/'' raw = [] \<longrightarrow> get_client config w = (Inr None, print NoUrlConfigured w))
       \<and> (py_rstrip ''/'' raw \<noteq> [] \<and>
            (port = [] \<or> py_in ('':'' @ port) (py_rstrip ''/'' raw)
               \<or> \<not> py_in ''://'' (py_rstrip ''/'' raw))
          \<longrightarrow> get_api_url config = Inr (Some (py_rstrip ''/'' raw)))"
proof (intro conjI impI)
  show "get_api_url config = Inr None \<longleftrightarrow> py_rstrip ''/'' raw = []"
    using get_api_url_None_iff [OF url port] .
next
  assume e: "py_rstrip ''/'' raw = []"
  then have n: "get_api_url config = Inr None"
    using get_api_url_None_iff [OF url port] by simp
  obtain kvs where "config = JObj kvs" using url by (cases config) simp_all
  then show "get_client config w = (Inr None, print NoUrlConfigured w)"
    using n by (simp add: get_client_def)
next
  assume "py_rstrip ''/'' raw \<noteq> [] \<and>
            (port = [] \<or> py_in ('':'' @ port) (py_rstrip ''/'' raw)
               \<or> \<not> py_in ''://'' (py_rstrip ''/'' raw))"
  then show "get_api_url config = Inr (Some (py_rstrip ''/'' raw))"
    using url port by (auto simp: get_api_url_def)
qed

theorem get_api_url_unchanged_witness:
  "py_rstrip ''/'' ''http://host:9000/v1/'' = ''http://host:9000/v1''
   \<and> py_in ('':'' @ ''9000'') (py_rstrip ''/'' ''http://host:9000/v1/'')
   \<and> get_api_url (JObj [(''url'', JStr ''http://host:9000/v1/''), (''port'', JStr ''9000'')])
       \<noteq> Inr None
   \<and> get_api_url (JObj [(''url'', JStr ''http://host:9000/v1/''), (''port'', JStr ''9000'')])
       = Inr (Some ''http://host:9000/v1'')"
proof -
  let ?c = "JObj [(''url'', JStr ''http://host:9000/v1/''), (''port'', JStr ''9000'')]"
  have h1: "dict_get ?c ''url'' (JStr []) = Inr (JStr ''http://host:9000/v1/'')" by simp
  have h2: "dict_get ?c ''port'' (JStr []) = Inr (JStr ''9000'')" by simp
  have s: "py_rstrip ''/'' ''http://host:9000/v1/'' = ''http://host:9000/v1''"
    by (simp add: py_rstrip_def)
  have i: "py_in ('':'' @ ''9000'') ''http://host:9000/v1''" by simp
  from get_api_url_unchanged [OF h1 h2, of example_world] s i show ?thesis by simp
qed

text \<open>
  Claim C5 as the specification states it has resolution fail exactly when the stored
  url is empty. The stored url \<open>/\<close> is not empty, and resolution fails.
\<close>

theorem get_api_url_fails_on_slash:
  "''/'' \<noteq> [] \<and> get_api_url (JObj [(''url'', JStr ''/''), (''port'', JStr ''8080'')]) = Inr None"
  by (simp add: get_api_url_def py_rstrip_def)

section \<open>Generating and writing the changelog\<close>







section \<open>Saving and loading the configuration\<close>

text \<open>
  Claim C8. Let \<open>config\<close> be a record of four strings. Where the \<^verbatim>\<open>json\<close> module writes
  it and reads the text back as modelled above, and the configuration file can be
  written and read back, \<open>load_config\<close> after \<open>save_config\<close> of \<open>config\<close> is \<open>config\<close>,
  whether or not the permission change succeeds. (For any module,
  \<open>save_then_load_any_module\<close>: it is so for every value that the module reads back from
  the text it writes for it.)
\<close>

theorem save_then_load:
  assumes config: "config = JObj [(''url'', JStr url), (''port'', JStr port),
                                  (''key'', JStr key), (''model'', JStr model)]"
    and dumps: "json_dumps E config = dump_indent 0 config"
    and loads: "json_loads E (dump_indent 0 config) = json_parse (dump_indent 0 config)"
    and wr: "fs_write_fault w (config_file E) = None"
    and rd: "fs_read_fault w (config_file E) = None"
  shows "load_config E (save_config E config w) = config"
proof -
  have "json_parse (dump_indent 0 config) = Some config"
    unfolding config by (rule json_parse_dump_config)
  then have "json_loads E (json_dumps E config) = Some config"
    by (simp only: dumps loads)
  with wr rd show ?thesis by (rule save_then_load_any_module)
qed

theorem save_then_load_witness:
  "json_dumps example_env example_config = dump_indent 0 example_config
   \<and> json_loads example_env (dump_indent 0 example_config)
       = json_parse (dump_indent 0 example_config)
   \<and> load_config example_env (save_config example_env example_config example_world)
       = example_config"
proof -
  have c: "example_config = JObj [(''url'', JStr ''http://localhost:11434/v1''),
                                  (''port'', JStr ''8080''), (''key'', JStr []),
                                  (''model'', JStr ''llama2'')]"
    by (simp add: example_config_def)
  have d: "json_dumps example_env example_config = dump_indent 0 example_config"
    and l: "json_loads example_env (dump_indent 0 example_config)
              = json_parse (dump_indent 0 example_config)"
    by (simp_all add: example_env_def)
  have wr: "fs_write_fault example_world (config_file example_env) = None"
    and rd: "fs_read_fault example_world (config_file example_env) = None"
    by (simp_all add: example_world_def)
  from save_then_load [OF c d l wr rd] d l show ?thesis by simp
qed

section \<open>The client's key\<close>



end
